theory Spec2Isabelle
  imports Complex_Main
begin

section \<open>Values and exceptions\<close>

text \<open>
  The operator tags \<^verbatim>\<open>operator.and_\<close>, \<^verbatim>\<open>operator.or_\<close> and
  \<^verbatim>\<open>operator.xor\<close> that the region algebra passes on to a compound region.
\<close>

datatype binop = operator_and | operator_or | operator_xor

text \<open>
  Regions as values. \<open>PixelShape\<close> and \<open>SkyShape\<close> stand for the concrete shapes
  (circle, polygon, ...) that subclass \<^verbatim>\<open>PixelRegion\<close> and \<^verbatim>\<open>SkyRegion\<close>
  elsewhere; \<open>CompoundPixel\<close> and \<open>CompoundSky\<close> are the instances of
  \<^verbatim>\<open>CompoundPixelRegion\<close> and \<^verbatim>\<open>CompoundSkyRegion\<close>, which subclass
  \<^verbatim>\<open>PixelRegion\<close> and \<^verbatim>\<open>SkyRegion\<close>.
\<close>

datatype region =
    PixelShape nat
  | SkyShape nat
  | CompoundPixel region region binop
  | CompoundSky region region binop

text \<open>
  Modelled from the spec: the coordinate value types live outside \<^verbatim>\<open>core.py\<close>.
  A pixel coordinate is a scalar or a sequence of x/y pairs and exposes the query
  \<^verbatim>\<open>isscalar\<close>; the rank of its \<^verbatim>\<open>x\<close> array is \<^verbatim>\<open>x.ndim\<close>. A sky coordinate
  and a physical quantity expose \<^verbatim>\<open>isscalar\<close> (and \<^verbatim>\<open>ndim\<close>) likewise. The
  attributes the code reads are fields; the points are carried along.
\<close>

datatype PixCoord = PixCoord (pix_isscalar: bool) (pix_x_ndim: nat) (pix_xy: "(real \<times> real) list")

datatype SkyCoord = SkyCoord (sky_isscalar: bool) (sky_ndim: nat) (sky_lonlat: "(real \<times> real) list")

datatype Quantity = Quantity (qty_isscalar: bool) (qty_value: "real list") (qty_unit: string)

text \<open>
  The Python values that reach the code. A \<^verbatim>\<open>bool\<close> is an \<^verbatim>\<open>int\<close> in Python
  (\<^verbatim>\<open>True\<close> is \<open>IntV 1\<close>); \<open>ArrayV n xs\<close> is a numpy array of rank \<open>n\<close>.
\<close>

datatype pyval =
    NoneV
  | IntV int
  | FloatV real
  | ArrayV nat "real list"
  | PixCoordV PixCoord
  | SkyCoordV SkyCoord
  | QuantityV Quantity
  | RegionV region

text \<open>
  Exceptions keep their class; the message keeps its template (one constructor per
  format string of the source) and the values formatted into it.
\<close>

datatype message =
    Invalid_mask_mode string "string set"
    \<comment> \<open>\<^verbatim>\<open>"Invalid mask mode: {0} (should be one of {1})"\<close>\<close>
  | Invalid_subpixels_value pyval
    \<comment> \<open>\<^verbatim>\<open>"Invalid subpixels value: {0} (should be a strictly positive integer)"\<close>\<close>
  | Coord_must_be_scalar PixCoord
    \<comment> \<open>\<^verbatim>\<open>'coord must be scalar. coord={}'\<close>\<close>
  | The_must_be string string
    \<comment> \<open>\<^verbatim>\<open>'The {} must be a 0D PixCoord object'\<close> and its siblings: the field, then
        the text after \<^verbatim>\<open>must be\<close>\<close>
  | The_inner_must_be_less_than_the_outer string
    \<comment> \<open>\<^verbatim>\<open>"The inner {0} must be less than the outer {0}"\<close>\<close>
  | The_outer_must_be_greater_than_the_outer string
    \<comment> \<open>\<^verbatim>\<open>"The outer {0} must be greater than the outer {0}"\<close>\<close>
  | The_inner_must_be string string
    \<comment> \<open>\<^verbatim>\<open>'The inner {} must be a scalar numpy/python number'\<close>\<close>
  | The_outer_must_be string string
    \<comment> \<open>\<^verbatim>\<open>'The outer {} must be a scalar numpy/python number'\<close>\<close>
  | Not_a_valid_meta_key string
    \<comment> \<open>\<^verbatim>\<open>"{} is not a valid meta key for region."\<close>\<close>
  | Not_a_valid_visual_meta_key string
    \<comment> \<open>\<^verbatim>\<open>"{} is not a valid visual meta key for region."\<close>\<close>
  | Missing_key string
    \<comment> \<open>the key a plain \<^verbatim>\<open>dict.__getitem__\<close> did not find\<close>
  | Unorderable pyval pyval
    \<comment> \<open>an ordering comparison Python 3 does not support between the two values\<close>

datatype error = ValueError message | KeyError message | TypeError message

text \<open>
  A method that mutates: it returns, or it raises; either way the state is the one the
  method left behind, so a write that happened before a raise stays visible.
\<close>

datatype 's outcome = Returned 's | Raised error 's

fun state_of :: "'s outcome \<Rightarrow> 's" where
  "state_of (Returned s) = s"
| "state_of (Raised e s) = s"

text \<open>\<^verbatim>\<open>isinstance\<close> and \<^verbatim>\<open>np.isscalar\<close> on these values.\<close>

fun isinstance_int :: "pyval \<Rightarrow> bool" where
  "isinstance_int (IntV n) = True"
| "isinstance_int v = False"

fun np_isscalar :: "pyval \<Rightarrow> bool" where
  "np_isscalar (IntV n) = True"
| "np_isscalar (FloatV x) = True"
| "np_isscalar v = False"

fun isinstance_PixelRegion :: "region \<Rightarrow> bool" where
  "isinstance_PixelRegion (PixelShape k) = True"
| "isinstance_PixelRegion (CompoundPixel a b f) = True"
| "isinstance_PixelRegion r = False"

fun isinstance_SkyRegion :: "region \<Rightarrow> bool" where
  "isinstance_SkyRegion (SkyShape k) = True"
| "isinstance_SkyRegion (CompoundSky a b f) = True"
| "isinstance_SkyRegion r = False"

section \<open>Mask-mode validation\<close>

definition VALID_MASK_MODES :: "string set" where
  "VALID_MASK_MODES = {''center'', ''exact'', ''subpixels''}"

text \<open>
  \<^verbatim>\<open>subpixels <= 0\<close>, which the source evaluates only after
  \<^verbatim>\<open>isinstance(subpixels, int)\<close> held.
\<close>

fun le_zero :: "pyval \<Rightarrow> bool" where
  "le_zero (IntV n) = (n \<le> 0)"
| "le_zero (FloatV x) = (x \<le> 0)"
| "le_zero v = False"

text \<open>\<^verbatim>\<open>PixelRegion._validate_mode(mode, subpixels)\<close>: returns \<^verbatim>\<open>None\<close> or raises.\<close>

definition validate_mode :: "string \<Rightarrow> pyval \<Rightarrow> error + unit" where
  "validate_mode mode subpixels =
     (if mode \<notin> VALID_MASK_MODES
      then Inl (ValueError (Invalid_mask_mode mode VALID_MASK_MODES))
      else if mode = ''subpixels''
      then (if \<not> isinstance_int subpixels \<or> le_zero subpixels
            then Inl (ValueError (Invalid_subpixels_value subpixels))
            else Inr ())
      else Inr ())"


section \<open>Region algebra\<close>

text \<open>
  The subclasses of \<^verbatim>\<open>RegionAttr\<close>. Each overrides \<^verbatim>\<open>_validate\<close> with
  \<^verbatim>\<open>if not(<condition>): raise ValueError('The {} must be <text>'.format(self._name))\<close>;
  \<open>accepts\<close> is the condition and \<open>must_be\<close> the text of each.
\<close>

datatype attr_class =
    ScalarPix | OneDPix | ScalarLength | ScalarSky | OneDSky | QuantityLength
  | CompoundRegionPix | CompoundRegionSky

fun accepts :: "attr_class \<Rightarrow> pyval \<Rightarrow> bool" where
  "accepts ScalarPix value = (case value of PixCoordV c \<Rightarrow> pix_isscalar c | _ \<Rightarrow> False)"
| "accepts OneDPix value =
     (case value of PixCoordV c \<Rightarrow> \<not> pix_isscalar c \<and> pix_x_ndim c = 1 | _ \<Rightarrow> False)"
| "accepts ScalarLength value = np_isscalar value"
| "accepts ScalarSky value = (case value of SkyCoordV c \<Rightarrow> sky_isscalar c | _ \<Rightarrow> False)"
| "accepts OneDSky value = (case value of SkyCoordV c \<Rightarrow> sky_ndim c = 1 | _ \<Rightarrow> False)"
| "accepts QuantityLength value = (case value of QuantityV q \<Rightarrow> qty_isscalar q | _ \<Rightarrow> False)"
| "accepts CompoundRegionPix value =
     (case value of RegionV r \<Rightarrow> isinstance_PixelRegion r | _ \<Rightarrow> False)"
| "accepts CompoundRegionSky value =
     (case value of RegionV r \<Rightarrow> isinstance_SkyRegion r | _ \<Rightarrow> False)"

fun must_be :: "attr_class \<Rightarrow> string" where
  "must_be ScalarPix = ''a 0D PixCoord object''"
| "must_be OneDPix = ''a 1D PixCoord object''"
| "must_be ScalarLength = ''a scalar numpy/python number''"
| "must_be ScalarSky = ''a 0D SkyCoord object''"
| "must_be OneDSky = ''a 1D SkyCoord object''"
| "must_be QuantityLength = ''a scalar astropy Quantity object''"
| "must_be CompoundRegionPix = ''a PixelRegion object''"
| "must_be CompoundRegionSky = ''a SkyRegion object''"

definition validate :: "attr_class \<Rightarrow> string \<Rightarrow> pyval \<Rightarrow> error + unit" where
  "validate c name value =
     (if \<not> accepts c value then Inl (ValueError (The_must_be name (must_be c))) else Inr ())"

text \<open>
  Modelled from the spec: the compound classes are defined in \<^verbatim>\<open>compound.py\<close>,
  outside \<^verbatim>\<open>core.py\<close>. A compound region holds \<^verbatim>\<open>region1\<close>, \<^verbatim>\<open>region2\<close>
  and the operator tag; its operands must be of the compound's own frame family, and a
  mismatch is a construction error. The operands are the constrained attributes
  \<^verbatim>\<open>CompoundRegionPix\<close> (\<^verbatim>\<open>CompoundRegionSky\<close>) of \<^verbatim>\<open>core.py\<close>, assigned in
  the order region1, region2.
\<close>

definition CompoundPixelRegion :: "region \<Rightarrow> region \<Rightarrow> binop \<Rightarrow> error + region" where
  "CompoundPixelRegion reg1 reg2 oper =
     (case validate CompoundRegionPix ''region1'' (RegionV reg1) of
        Inl e \<Rightarrow> Inl e
      | Inr _ \<Rightarrow>
          (case validate CompoundRegionPix ''region2'' (RegionV reg2) of
             Inl e \<Rightarrow> Inl e
           | Inr _ \<Rightarrow> Inr (CompoundPixel reg1 reg2 oper)))"

definition CompoundSkyRegion :: "region \<Rightarrow> region \<Rightarrow> binop \<Rightarrow> error + region" where
  "CompoundSkyRegion reg1 reg2 oper =
     (case validate CompoundRegionSky ''region1'' (RegionV reg1) of
        Inl e \<Rightarrow> Inl e
      | Inr _ \<Rightarrow>
          (case validate CompoundRegionSky ''region2'' (RegionV reg2) of
             Inl e \<Rightarrow> Inl e
           | Inr _ \<Rightarrow> Inr (CompoundSky reg1 reg2 oper)))"

text \<open>The three operations of \<^verbatim>\<open>PixelRegion\<close> and of \<^verbatim>\<open>SkyRegion\<close>.\<close>

definition PixelRegion_intersection :: "region \<Rightarrow> region \<Rightarrow> error + region" where
  "PixelRegion_intersection self other = CompoundPixelRegion self other operator_and"

definition PixelRegion_symmetric_difference :: "region \<Rightarrow> region \<Rightarrow> error + region" where
  "PixelRegion_symmetric_difference self other = CompoundPixelRegion self other operator_xor"

definition PixelRegion_union :: "region \<Rightarrow> region \<Rightarrow> error + region" where
  "PixelRegion_union self other = CompoundPixelRegion self other operator_or"

definition SkyRegion_intersection :: "region \<Rightarrow> region \<Rightarrow> error + region" where
  "SkyRegion_intersection self other = CompoundSkyRegion self other operator_and"

definition SkyRegion_symmetric_difference :: "region \<Rightarrow> region \<Rightarrow> error + region" where
  "SkyRegion_symmetric_difference self other = CompoundSkyRegion self other operator_xor"

definition SkyRegion_union :: "region \<Rightarrow> region \<Rightarrow> error + region" where
  "SkyRegion_union self other = CompoundSkyRegion self other operator_or"

text \<open>
  The abstract methods of \<^verbatim>\<open>Region\<close>, dispatched on the class of \<open>self\<close>: every
  region is a \<^verbatim>\<open>PixelRegion\<close> or a \<^verbatim>\<open>SkyRegion\<close>.
\<close>

definition intersection :: "region \<Rightarrow> region \<Rightarrow> error + region" where
  "intersection self other =
     (if isinstance_PixelRegion self then PixelRegion_intersection self other
      else SkyRegion_intersection self other)"

definition symmetric_difference :: "region \<Rightarrow> region \<Rightarrow> error + region" where
  "symmetric_difference self other =
     (if isinstance_PixelRegion self then PixelRegion_symmetric_difference self other
      else SkyRegion_symmetric_difference self other)"

definition union_region :: "region \<Rightarrow> region \<Rightarrow> error + region" where
  "union_region self other =
     (if isinstance_PixelRegion self then PixelRegion_union self other
      else SkyRegion_union self other)"

text \<open>\<^verbatim>\<open>Region.__and__\<close>, \<^verbatim>\<open>__or__\<close> and \<^verbatim>\<open>__xor__\<close>.\<close>

definition Region_dunder_and :: "region \<Rightarrow> region \<Rightarrow> error + region" where
  "Region_dunder_and self other = intersection self other"

definition Region_dunder_or :: "region \<Rightarrow> region \<Rightarrow> error + region" where
  "Region_dunder_or self other = union_region self other"

definition Region_dunder_xor :: "region \<Rightarrow> region \<Rightarrow> error + region" where
  "Region_dunder_xor self other = symmetric_difference self other"

section \<open>Containment\<close>

text \<open>
  \<^verbatim>\<open>PixelRegion.__contains__\<close>, the method behind \<^verbatim>\<open>coord in region\<close>. The
  abstract \<^verbatim>\<open>contains\<close> of the shape is the parameter \<open>contains\<close>; what it
  returns is returned as it is (the truth value Python's \<^verbatim>\<open>in\<close> takes of it is the
  interpreter's step, after the method).
\<close>

definition PixelRegion_dunder_contains ::
  "(region \<Rightarrow> PixCoord \<Rightarrow> error + 'b) \<Rightarrow> region \<Rightarrow> PixCoord \<Rightarrow> error + 'b" where
  "PixelRegion_dunder_contains contains self coord =
     (if \<not> pix_isscalar coord then Inl (ValueError (Coord_must_be_scalar coord))
      else contains self coord)"

text \<open>
  \<^verbatim>\<open>SkyRegion.contains(skycoord, wcs)\<close>. The abstract \<^verbatim>\<open>to_pixel\<close>, the
  conversion \<^verbatim>\<open>PixCoord.from_sky\<close> (defined in \<^verbatim>\<open>pixcoord.py\<close>) and the pixel
  region's \<^verbatim>\<open>contains\<close> are parameters; each may raise. The calls happen in the
  order of the source.
\<close>

definition SkyRegion_contains ::
  "(region \<Rightarrow> 'w \<Rightarrow> error + region) \<Rightarrow> (SkyCoord \<Rightarrow> 'w \<Rightarrow> error + PixCoord) \<Rightarrow>
   (region \<Rightarrow> PixCoord \<Rightarrow> error + 'b) \<Rightarrow> region \<Rightarrow> SkyCoord \<Rightarrow> 'w \<Rightarrow> error + 'b" where
  "SkyRegion_contains to_pixel from_sky contains self skycoord wcs =
     (case to_pixel self wcs of
        Inl e \<Rightarrow> Inl e
      | Inr pixel_region \<Rightarrow>
          (case from_sky skycoord wcs of
             Inl e \<Rightarrow> Inl e
           | Inr pixcoord \<Rightarrow> contains pixel_region pixcoord))"

text \<open>
  A concrete sky region to run \<^verbatim>\<open>SkyRegion.contains\<close> on: the half-plane of
  non-negative longitude under the identity transform. Its pixel region tests every
  point it is given, one truth value per point.
\<close>

definition halfplane_to_pixel :: "region \<Rightarrow> unit \<Rightarrow> error + region" where
  "halfplane_to_pixel self wcs = Inr (PixelShape 0)"

definition identity_from_sky :: "SkyCoord \<Rightarrow> unit \<Rightarrow> error + PixCoord" where
  "identity_from_sky skycoord wcs =
     Inr (PixCoord (sky_isscalar skycoord) (sky_ndim skycoord) (sky_lonlat skycoord))"

definition halfplane_contains :: "region \<Rightarrow> PixCoord \<Rightarrow> error + bool list" where
  "halfplane_contains self pixcoord = Inr (map (\<lambda>(x, y). 0 \<le> x) (pix_xy pixcoord))"

section \<open>Constrained attributes\<close>

text \<open>
  A \<^verbatim>\<open>RegionAttr\<close> descriptor: its class, its \<^verbatim>\<open>_name\<close> and its side table
  \<^verbatim>\<open>_values\<close>, keyed by the instance (an object identity).
\<close>

type_synonym inst = nat

record RegionAttr =
  attr_class :: attr_class
  attr_name :: string
  attr_values :: "inst \<rightharpoonup> pyval"

definition RegionAttr_init :: "attr_class \<Rightarrow> string \<Rightarrow> RegionAttr" where
  "RegionAttr_init c name = \<lparr>attr_class = c, attr_name = name, attr_values = Map.empty\<rparr>"

text \<open>\<^verbatim>\<open>__get__\<close> on an instance: \<^verbatim>\<open>self._values.get(instance, None)\<close>.\<close>

definition RegionAttr_get :: "RegionAttr \<Rightarrow> inst \<Rightarrow> pyval" where
  "RegionAttr_get self instance =
     (case attr_values self instance of None \<Rightarrow> NoneV | Some v \<Rightarrow> v)"

definition RegionAttr_set :: "RegionAttr \<Rightarrow> inst \<Rightarrow> pyval \<Rightarrow> RegionAttr outcome" where
  "RegionAttr_set self instance value =
     (case validate (attr_class self) (attr_name self) value of
        Inl e \<Rightarrow> Raised e self
      | Inr _ \<Rightarrow> Returned (self\<lparr>attr_values := (attr_values self)(instance \<mapsto> value)\<rparr>))"

text \<open>
  A caller that assigns one value after the other and carries on after a rejected
  assignment.
\<close>

fun assign_all :: "RegionAttr \<Rightarrow> (inst \<times> pyval) list \<Rightarrow> RegionAttr" where
  "assign_all self [] = self"
| "assign_all self ((instance, value) # rest) =
     assign_all (state_of (RegionAttr_set self instance value)) rest"

section \<open>Linked annulus attributes\<close>

text \<open>
  Modelled from the spec: the operand shapes of an annulus (two circles, two ellipses,
  two rectangles) are defined outside \<^verbatim>\<open>core.py\<close>. A plain region's attributes are
  constrained attributes, mutated only through their setters; the two operands are
  instances of one shape class, so \<^verbatim>\<open>getattr\<close> and \<^verbatim>\<open>setattr\<close> on either go
  through that class's \<^verbatim>\<open>RegionAttr\<close> descriptor of the given name. The store holds
  the descriptor of every attribute name. The annulus descriptors are read and written
  on an instance; read on the class (\<^verbatim>\<open>instance is None\<close>) they return themselves.
\<close>

type_synonym store = "string \<Rightarrow> RegionAttr"

definition getattr :: "store \<Rightarrow> inst \<Rightarrow> string \<Rightarrow> pyval" where
  "getattr s obj name = RegionAttr_get (s name) obj"

definition setattr :: "store \<Rightarrow> inst \<Rightarrow> string \<Rightarrow> pyval \<Rightarrow> store outcome" where
  "setattr s obj name value =
     (case RegionAttr_set (s name) obj value of
        Returned a \<Rightarrow> Returned (s(name := a))
      | Raised e a \<Rightarrow> Raised e (s(name := a)))"

text \<open>The compound instance an annulus descriptor is read or written on.\<close>

record compound =
  region1 :: inst
  region2 :: inst

text \<open>
  \<^verbatim>\<open><\<close> and \<^verbatim>\<open>>\<close> between Python values: numeric between numbers, a
  \<^verbatim>\<open>TypeError\<close> in Python 3 otherwise (for instance against the \<^verbatim>\<open>None\<close> of an
  unset field). Numbers are compared exactly, as Python compares its own \<^verbatim>\<open>int\<close> and
  \<^verbatim>\<open>float\<close>. Two cases of the running code have no value here: NaN, and a
  \<^verbatim>\<open>numpy.float64\<close> operand, against which numpy first rounds an \<^verbatim>\<open>int\<close> beyond
  \<open>2\<^sup>5\<^sup>3\<close> to the nearest double. Whatever is stated with \<open>py_lt\<close> and
  \<open>py_gt\<close> is stated for numbers that compare exactly.
\<close>

fun num_of :: "pyval \<Rightarrow> real option" where
  "num_of (IntV n) = Some (real_of_int n)"
| "num_of (FloatV x) = Some x"
| "num_of v = None"

definition py_lt :: "pyval \<Rightarrow> pyval \<Rightarrow> error + bool" where
  "py_lt a b =
     (case num_of a of
        None \<Rightarrow> Inl (TypeError (Unorderable a b))
      | Some x \<Rightarrow>
          (case num_of b of
             None \<Rightarrow> Inl (TypeError (Unorderable a b))
           | Some y \<Rightarrow> Inr (x < y)))"

definition py_gt :: "pyval \<Rightarrow> pyval \<Rightarrow> error + bool" where
  "py_gt a b =
     (case num_of a of
        None \<Rightarrow> Inl (TypeError (Unorderable a b))
      | Some x \<Rightarrow>
          (case num_of b of
             None \<Rightarrow> Inl (TypeError (Unorderable a b))
           | Some y \<Rightarrow> Inr (x > y)))"





text \<open>
  \<^verbatim>\<open>AnnulusInnerScalarLength\<close> and \<^verbatim>\<open>AnnulusOuterScalarLength\<close>; \<open>name\<close> is the
  descriptor's \<^verbatim>\<open>_name\<close>, the length field of the operands.
\<close>

definition AnnulusInnerScalarLength_get :: "string \<Rightarrow> store \<Rightarrow> compound \<Rightarrow> pyval" where
  "AnnulusInnerScalarLength_get name s instance =
     (let reg1 = region1 instance in getattr s reg1 name)"

definition AnnulusInnerScalarLength_set ::
  "string \<Rightarrow> store \<Rightarrow> compound \<Rightarrow> pyval \<Rightarrow> store outcome" where
  "AnnulusInnerScalarLength_set name s instance value =
     (let reg1 = region1 instance; reg2 = region2 instance in
      if np_isscalar value
      then (case py_lt (getattr s reg2 name) value of
              Inl e \<Rightarrow> Raised e s
            | Inr True \<Rightarrow> Raised (ValueError (The_inner_must_be_less_than_the_outer name)) s
            | Inr False \<Rightarrow> setattr s reg1 name value)
      else Raised (ValueError (The_inner_must_be name ''a scalar numpy/python number'')) s)"

definition AnnulusOuterScalarLength_get :: "string \<Rightarrow> store \<Rightarrow> compound \<Rightarrow> pyval" where
  "AnnulusOuterScalarLength_get name s instance =
     (let reg2 = region2 instance in getattr s reg2 name)"

definition AnnulusOuterScalarLength_set ::
  "string \<Rightarrow> store \<Rightarrow> compound \<Rightarrow> pyval \<Rightarrow> store outcome" where
  "AnnulusOuterScalarLength_set name s instance value =
     (let reg1 = region1 instance; reg2 = region2 instance in
      if np_isscalar value
      then (case py_gt (getattr s reg1 name) value of
              Inl e \<Rightarrow> Raised e s
            | Inr True \<Rightarrow> Raised (ValueError (The_outer_must_be_greater_than_the_outer name)) s
            | Inr False \<Rightarrow> setattr s reg2 name value)
      else Raised (ValueError (The_outer_must_be name ''a scalar numpy/python number'')) s)"

text \<open>
  A circle annulus with inner radius 3.0 and outer radius 5.0: the operands are the
  objects 10 and 20 of a shape class whose \<^verbatim>\<open>radius\<close> is a \<^verbatim>\<open>ScalarLength\<close>, whose
  \<^verbatim>\<open>center\<close> is a \<^verbatim>\<open>ScalarPix\<close> and whose \<^verbatim>\<open>angle\<close> is a
  \<^verbatim>\<open>QuantityLength\<close>.
\<close>

definition shape_class :: store where
  "shape_class name =
     RegionAttr_init
       (if name = ''center'' then ScalarPix
        else if name = ''angle'' then QuantityLength else ScalarLength) name"

definition annulus_3_5 :: store where
  "annulus_3_5 =
     state_of (setattr (state_of (setattr shape_class 10 ''radius'' (FloatV 3)))
                 20 ''radius'' (FloatV 5))"

definition the_annulus :: compound where
  "the_annulus = \<lparr>region1 = 10, region2 = 20\<rparr>"

section \<open>Metadata containers\<close>

text \<open>
  \<^verbatim>\<open>RegionMeta\<close> and \<^verbatim>\<open>RegionVisual\<close> are dictionaries: maps from keys to values.
  \<^verbatim>\<open>key_mapping.get(key, key)\<close> is \<open>resolve\<close>.
\<close>

definition resolve :: "(string \<rightharpoonup> string) \<Rightarrow> string \<Rightarrow> string" where
  "resolve key_mapping key = (case key_mapping key of None \<Rightarrow> key | Some k \<Rightarrow> k)"

definition dict_getitem :: "(string \<rightharpoonup> 'v) \<Rightarrow> string \<Rightarrow> error + 'v" where
  "dict_getitem d key = (case d key of None \<Rightarrow> Inl (KeyError (Missing_key key)) | Some v \<Rightarrow> Inr v)"

definition RegionMeta_valid_keys :: "string list" where
  "RegionMeta_valid_keys =
     [''label'', ''symbol'', ''include'', ''frame'', ''range'', ''veltype'',
      ''restfreq'', ''tag'', ''comment'', ''coord'', ''line'', ''name'',
      ''select'', ''highlite'', ''fixed'', ''edit'', ''move'', ''rotate'',
      ''delete'', ''source'', ''background'', ''corr'', ''type'']"

definition RegionMeta_key_mapping :: "string \<rightharpoonup> string" where
  "RegionMeta_key_mapping = [''point'' \<mapsto> ''symbol'', ''text'' \<mapsto> ''label'']"

definition RegionMeta_setitem ::
  "(string \<rightharpoonup> 'v) \<Rightarrow> string \<Rightarrow> 'v \<Rightarrow> (string \<rightharpoonup> 'v) outcome" where
  "RegionMeta_setitem self key value =
     (let key = resolve RegionMeta_key_mapping key in
      if key \<in> set RegionMeta_valid_keys then Returned (self(key \<mapsto> value))
      else Raised (KeyError (Not_a_valid_meta_key key)) self)"

definition RegionMeta_getitem :: "(string \<rightharpoonup> 'v) \<Rightarrow> string \<Rightarrow> error + 'v" where
  "RegionMeta_getitem self item =
     (let item = resolve RegionMeta_key_mapping item in dict_getitem self item)"

definition RegionVisual_valid_keys :: "string list" where
  "RegionVisual_valid_keys =
     [''color'', ''dash'', ''font'', ''dashlist'', ''symsize'', ''symthick'',
      ''fontsize'', ''fontstyle'', ''usetex'', ''labelpos'', ''labeloff'',
      ''linewidth'', ''linestyle'', ''fill'', ''line'']"

definition RegionVisual_key_mapping :: "string \<rightharpoonup> string" where
  "RegionVisual_key_mapping = [''width'' \<mapsto> ''linewidth'']"

definition RegionVisual_setitem ::
  "(string \<rightharpoonup> 'v) \<Rightarrow> string \<Rightarrow> 'v \<Rightarrow> (string \<rightharpoonup> 'v) outcome" where
  "RegionVisual_setitem self key value =
     (let key = resolve RegionVisual_key_mapping key in
      if key \<in> set RegionVisual_valid_keys then Returned (self(key \<mapsto> value))
      else Raised (KeyError (Not_a_valid_visual_meta_key key)) self)"

definition RegionVisual_getitem :: "(string \<rightharpoonup> 'v) \<Rightarrow> string \<Rightarrow> error + 'v" where
  "RegionVisual_getitem self item =
     (let item = resolve RegionVisual_key_mapping item in dict_getitem self item)"

text \<open>
  Both classes subclass \<^verbatim>\<open>dict\<close> and override \<^verbatim>\<open>__setitem__\<close> and
  \<^verbatim>\<open>__getitem__\<close> only. Every other method is the one \<^verbatim>\<open>dict\<close> gives them:
  \<^verbatim>\<open>update(other)\<close> stores the items of another dictionary as they are, without
  calling \<^verbatim>\<open>__setitem__\<close>, and \<^verbatim>\<open>get(key)\<close> looks the key up as it is, without
  calling \<^verbatim>\<open>__getitem__\<close>, and returns \<^verbatim>\<open>None\<close> for a missing key.
\<close>

definition dict_update :: "(string \<rightharpoonup> 'v) \<Rightarrow> (string \<rightharpoonup> 'v) \<Rightarrow> (string \<rightharpoonup> 'v) outcome" where
  "dict_update self other = Returned (self ++ other)"

definition dict_get :: "(string \<rightharpoonup> 'v) \<Rightarrow> string \<Rightarrow> 'v option" where
  "dict_get self key = self key"

definition RegionMeta_update ::
  "(string \<rightharpoonup> 'v) \<Rightarrow> (string \<rightharpoonup> 'v) \<Rightarrow> (string \<rightharpoonup> 'v) outcome" where
  "RegionMeta_update self other = dict_update self other"

definition RegionMeta_get :: "(string \<rightharpoonup> 'v) \<Rightarrow> string \<Rightarrow> 'v option" where
  "RegionMeta_get self key = dict_get self key"

definition RegionVisual_update ::
  "(string \<rightharpoonup> 'v) \<Rightarrow> (string \<rightharpoonup> 'v) \<Rightarrow> (string \<rightharpoonup> 'v) outcome" where
  "RegionVisual_update self other = dict_update self other"

section \<open>Theorems\<close>

subsection \<open>Mask-mode validation\<close>

text \<open>
  C5. Mask-mode validation raises exactly when the mode is not one of center, exact and
  subpixels, or the mode is subpixels and \<open>subpixels\<close> is not a strictly positive
  integer. The error is a \<^verbatim>\<open>ValueError\<close> that names the rejected mode together with
  the valid set, or the rejected \<open>subpixels\<close> value. With mode center or exact every
  \<open>subpixels\<close> value passes.
\<close>

theorem validate_mode_raises_iff:
  "((\<exists>e. validate_mode mode subpixels = Inl e) \<longleftrightarrow>
      (mode \<notin> {''center'', ''exact'', ''subpixels''} \<or>
       (mode = ''subpixels'' \<and> \<not> (\<exists>n. subpixels = IntV n \<and> 0 < n)))) \<and>
   (mode \<notin> {''center'', ''exact'', ''subpixels''} \<longrightarrow>
      validate_mode mode subpixels =
        Inl (ValueError (Invalid_mask_mode mode {''center'', ''exact'', ''subpixels''}))) \<and>
   (mode = ''subpixels'' \<and> \<not> (\<exists>n. subpixels = IntV n \<and> 0 < n) \<longrightarrow>
      validate_mode mode subpixels = Inl (ValueError (Invalid_subpixels_value subpixels))) \<and>
   (mode = ''center'' \<or> mode = ''exact'' \<longrightarrow> validate_mode mode subpixels = Inr ())"
proof (intro conjI impI)
  show "(\<exists>e. validate_mode mode subpixels = Inl e) \<longleftrightarrow>
     (mode \<notin> {''center'', ''exact'', ''subpixels''} \<or>
      (mode = ''subpixels'' \<and> \<not> (\<exists>n. subpixels = IntV n \<and> 0 < n)))"
    by (cases subpixels) (auto simp: validate_mode_def VALID_MASK_MODES_def)
  show "validate_mode mode subpixels =
       Inl (ValueError (Invalid_mask_mode mode {''center'', ''exact'', ''subpixels''}))"
    if "mode \<notin> {''center'', ''exact'', ''subpixels''}"
    using that by (simp add: validate_mode_def VALID_MASK_MODES_def)
  show "validate_mode mode subpixels = Inl (ValueError (Invalid_subpixels_value subpixels))"
    if "mode = ''subpixels'' \<and> \<not> (\<exists>n. subpixels = IntV n \<and> 0 < n)"
    using that by (cases subpixels) (auto simp: validate_mode_def VALID_MASK_MODES_def)
  show "validate_mode mode subpixels = Inr ()" if "mode = ''center'' \<or> mode = ''exact''"
    using that by (auto simp: validate_mode_def VALID_MASK_MODES_def)
qed

theorem validate_mode_raises_iff_witness:
  "validate_mode ''subpixels'' (IntV (-3)) = Inl (ValueError (Invalid_subpixels_value (IntV (-3)))) \<and>
   validate_mode ''triangle'' (IntV 5) =
     Inl (ValueError (Invalid_mask_mode ''triangle'' {''center'', ''exact'', ''subpixels''})) \<and>
   validate_mode ''center'' (IntV 4) = Inr () \<and>
   \<not> (\<exists>e. validate_mode ''subpixels'' (IntV 4) = Inl e)"
  using validate_mode_raises_iff [of "''subpixels''" "IntV (-3)"]
    validate_mode_raises_iff [of "''triangle''" "IntV 5"]
    validate_mode_raises_iff [of "''center''" "IntV 4"]
    validate_mode_raises_iff [of "''subpixels''" "IntV 4"]
  by simp

subsection \<open>Region algebra\<close>

lemmas region_ops_defs =
  intersection_def union_region_def symmetric_difference_def
  PixelRegion_intersection_def PixelRegion_union_def PixelRegion_symmetric_difference_def
  SkyRegion_intersection_def SkyRegion_union_def SkyRegion_symmetric_difference_def
  CompoundPixelRegion_def CompoundSkyRegion_def validate_def

lemma not_both_frames: "isinstance_SkyRegion r \<Longrightarrow> \<not> isinstance_PixelRegion r"
  by (cases r) simp_all

text \<open>
  C2. For regions \<open>a\<close> and \<open>b\<close> of the same frame family, \<open>a.union(b)\<close>,
  \<open>a.intersection(b)\<close> and \<open>a.symmetric_difference(b)\<close> return the compound region of
  that family with region1 = \<open>a\<close>, region2 = \<open>b\<close> and the tag OR, AND, XOR; the
  operators \<^verbatim>\<open>&\<close>, \<^verbatim>\<open>|\<close>, \<^verbatim>\<open>^\<close> return what the three methods return, for
  all operands.
\<close>

theorem region_algebra_builds_compound:
  "(isinstance_PixelRegion a \<and> isinstance_PixelRegion b \<longrightarrow>
      union_region a b = Inr (CompoundPixel a b operator_or) \<and>
      intersection a b = Inr (CompoundPixel a b operator_and) \<and>
      symmetric_difference a b = Inr (CompoundPixel a b operator_xor)) \<and>
   (isinstance_SkyRegion a \<and> isinstance_SkyRegion b \<longrightarrow>
      union_region a b = Inr (CompoundSky a b operator_or) \<and>
      intersection a b = Inr (CompoundSky a b operator_and) \<and>
      symmetric_difference a b = Inr (CompoundSky a b operator_xor)) \<and>
   Region_dunder_and a b = intersection a b \<and>
   Region_dunder_or a b = union_region a b \<and>
   Region_dunder_xor a b = symmetric_difference a b"
proof (intro conjI impI)
  assume pix: "isinstance_PixelRegion a \<and> isinstance_PixelRegion b"
  then show "union_region a b = Inr (CompoundPixel a b operator_or)"
    and "intersection a b = Inr (CompoundPixel a b operator_and)"
    and "symmetric_difference a b = Inr (CompoundPixel a b operator_xor)"
    by (simp_all add: region_ops_defs)
next
  assume sky: "isinstance_SkyRegion a \<and> isinstance_SkyRegion b"
  then have "\<not> isinstance_PixelRegion a"
    by (simp add: not_both_frames)
  with sky show "union_region a b = Inr (CompoundSky a b operator_or)"
    and "intersection a b = Inr (CompoundSky a b operator_and)"
    and "symmetric_difference a b = Inr (CompoundSky a b operator_xor)"
    by (simp_all add: region_ops_defs)
qed (simp_all add: Region_dunder_and_def Region_dunder_or_def Region_dunder_xor_def)

theorem region_algebra_builds_compound_witness:
  "union_region (PixelShape 1) (PixelShape 2) =
     Inr (CompoundPixel (PixelShape 1) (PixelShape 2) operator_or) \<and>
   Region_dunder_and (PixelShape 1) (PixelShape 2) =
     Inr (CompoundPixel (PixelShape 1) (PixelShape 2) operator_and) \<and>
   Region_dunder_xor (SkyShape 1) (CompoundSky (SkyShape 2) (SkyShape 3) operator_or) =
     Inr (CompoundSky (SkyShape 1) (CompoundSky (SkyShape 2) (SkyShape 3) operator_or)
            operator_xor)"
  using region_algebra_builds_compound [of "PixelShape 1" "PixelShape 2"]
    region_algebra_builds_compound
      [of "SkyShape 1" "CompoundSky (SkyShape 2) (SkyShape 3) operator_or"]
  by simp

text \<open>
  C8. Combining a pixel region with a sky region, in either order and through any of the
  three operations, raises: the second operand fails the validation of the compound's
  operand attribute, and no compound is built. A compound pixel region is constructed
  exactly from two \<^verbatim>\<open>PixelRegion\<close> operands, a compound sky region exactly from two
  \<^verbatim>\<open>SkyRegion\<close> operands.
\<close>

theorem mixed_frames_rejected:
  "(isinstance_PixelRegion a \<and> isinstance_SkyRegion b \<longrightarrow>
      intersection a b = Inl (ValueError (The_must_be ''region2'' ''a PixelRegion object'')) \<and>
      union_region a b = Inl (ValueError (The_must_be ''region2'' ''a PixelRegion object'')) \<and>
      symmetric_difference a b =
        Inl (ValueError (The_must_be ''region2'' ''a PixelRegion object''))) \<and>
   (isinstance_SkyRegion a \<and> isinstance_PixelRegion b \<longrightarrow>
      intersection a b = Inl (ValueError (The_must_be ''region2'' ''a SkyRegion object'')) \<and>
      union_region a b = Inl (ValueError (The_must_be ''region2'' ''a SkyRegion object'')) \<and>
      symmetric_difference a b =
        Inl (ValueError (The_must_be ''region2'' ''a SkyRegion object''))) \<and>
   ((\<exists>c. CompoundPixelRegion a b f = Inr c) \<longleftrightarrow>
      isinstance_PixelRegion a \<and> isinstance_PixelRegion b) \<and>
   ((\<exists>c. CompoundSkyRegion a b f = Inr c) \<longleftrightarrow>
      isinstance_SkyRegion a \<and> isinstance_SkyRegion b)"
proof (intro conjI impI)
  assume h: "isinstance_PixelRegion a \<and> isinstance_SkyRegion b"
  then have "\<not> isinstance_PixelRegion b"
    by (simp add: not_both_frames)
  with h show
    "intersection a b = Inl (ValueError (The_must_be ''region2'' ''a PixelRegion object''))"
    and "union_region a b = Inl (ValueError (The_must_be ''region2'' ''a PixelRegion object''))"
    and "symmetric_difference a b =
      Inl (ValueError (The_must_be ''region2'' ''a PixelRegion object''))"
    by (simp_all add: region_ops_defs)
next
  assume h: "isinstance_SkyRegion a \<and> isinstance_PixelRegion b"
  then have "\<not> isinstance_PixelRegion a" "\<not> isinstance_SkyRegion b"
    using not_both_frames by auto
  with h show
    "intersection a b = Inl (ValueError (The_must_be ''region2'' ''a SkyRegion object''))"
    and "union_region a b = Inl (ValueError (The_must_be ''region2'' ''a SkyRegion object''))"
    and "symmetric_difference a b =
      Inl (ValueError (The_must_be ''region2'' ''a SkyRegion object''))"
    by (simp_all add: region_ops_defs)
next
  show "(\<exists>c. CompoundPixelRegion a b f = Inr c) \<longleftrightarrow>
      isinstance_PixelRegion a \<and> isinstance_PixelRegion b"
    by (auto simp: CompoundPixelRegion_def validate_def)
  show "(\<exists>c. CompoundSkyRegion a b f = Inr c) \<longleftrightarrow>
      isinstance_SkyRegion a \<and> isinstance_SkyRegion b"
    by (auto simp: CompoundSkyRegion_def validate_def)
qed

theorem mixed_frames_rejected_witness:
  "union_region (PixelShape 1) (SkyShape 2) =
     Inl (ValueError (The_must_be ''region2'' ''a PixelRegion object'')) \<and>
   intersection (SkyShape 2) (PixelShape 1) =
     Inl (ValueError (The_must_be ''region2'' ''a SkyRegion object'')) \<and>
   \<not> (\<exists>c. CompoundPixelRegion (SkyShape 2) (PixelShape 1) operator_xor = Inr c)"
  using mixed_frames_rejected [of "PixelShape 1" "SkyShape 2"]
    mixed_frames_rejected [of "SkyShape 2" "PixelShape 1" operator_xor]
  by simp

subsection \<open>Containment\<close>

text \<open>
  C10. \<^verbatim>\<open>coord in r\<close>, that is \<^verbatim>\<open>r.__contains__(coord)\<close>, raises a
  \<^verbatim>\<open>ValueError\<close> carrying the coordinate when the coordinate is not scalar, and is
  \<^verbatim>\<open>r.contains(coord)\<close> when it is, whatever \<^verbatim>\<open>contains\<close> does with sequences.
\<close>

theorem in_operator_is_scalar_contains:
  "(\<not> pix_isscalar coord \<longrightarrow>
      PixelRegion_dunder_contains contains r coord =
        Inl (ValueError (Coord_must_be_scalar coord))) \<and>
   (pix_isscalar coord \<longrightarrow> PixelRegion_dunder_contains contains r coord = contains r coord)"
  by (simp add: PixelRegion_dunder_contains_def)

theorem in_operator_is_scalar_contains_witness:
  "PixelRegion_dunder_contains halfplane_contains (PixelShape 0)
     (PixCoord False 1 [(1, 2), (-1, 0)]) =
     Inl (ValueError (Coord_must_be_scalar (PixCoord False 1 [(1, 2), (-1, 0)]))) \<and>
   halfplane_contains (PixelShape 0) (PixCoord False 1 [(1, 2), (-1, 0)]) = Inr [True, False] \<and>
   PixelRegion_dunder_contains halfplane_contains (PixelShape 0) (PixCoord True 0 [(1, 2)]) =
     Inr [True]"
  using in_operator_is_scalar_contains
      [of "PixCoord False 1 [(1, 2), (-1, 0)]" halfplane_contains "PixelShape 0"]
    in_operator_is_scalar_contains [of "PixCoord True 0 [(1, 2)]" halfplane_contains "PixelShape 0"]
  by (simp add: halfplane_contains_def)

text \<open>
  C3, as stated, fails: \<^verbatim>\<open>SkyRegion.contains\<close> has no scalar check. On the half-plane
  region a sequence of two sky coordinates is converted and tested point by point, and
  the call returns.
\<close>

theorem sky_contains_sequence_counterexample:
  "SkyRegion_contains halfplane_to_pixel identity_from_sky halfplane_contains
     (SkyShape 0) (SkyCoord False 1 [(1, 2), (-1, 0)]) () = Inr [True, False]"
  by (simp add: SkyRegion_contains_def halfplane_to_pixel_def identity_from_sky_def
      halfplane_contains_def)

text \<open>
  C3, amended. For a sequence (non-scalar) sky coordinate \<^verbatim>\<open>SkyRegion.contains\<close>
  raises an error only when \<^verbatim>\<open>to_pixel\<close>, the coordinate conversion or the pixel
  region's \<^verbatim>\<open>contains\<close> raises it; it adds no check of its own.
\<close>

theorem sky_contains_raises_only_from_collaborators:
  "\<not> sky_isscalar p \<longrightarrow>
     (SkyRegion_contains to_pixel from_sky contains s p w = Inl e \<longleftrightarrow>
        to_pixel s w = Inl e \<or>
        (\<exists>r. to_pixel s w = Inr r \<and>
             (from_sky p w = Inl e \<or> (\<exists>q. from_sky p w = Inr q \<and> contains r q = Inl e))))"
  by (auto simp: SkyRegion_contains_def split: sum.splits)

theorem sky_contains_raises_only_from_collaborators_witness:
  "\<not> sky_isscalar (SkyCoord False 1 [(1, 2), (-1, 0)]) \<and>
   (\<forall>e. SkyRegion_contains halfplane_to_pixel identity_from_sky halfplane_contains
          (SkyShape 0) (SkyCoord False 1 [(1, 2), (-1, 0)]) () \<noteq> Inl e)"
  using sky_contains_raises_only_from_collaborators
    [of "SkyCoord False 1 [(1, 2), (-1, 0)]" halfplane_to_pixel identity_from_sky
      halfplane_contains "SkyShape 0" "()"]
  by (simp add: halfplane_to_pixel_def identity_from_sky_def halfplane_contains_def)

text \<open>
  C4. When \<^verbatim>\<open>to_pixel(w)\<close> yields the pixel region \<open>r\<close> and the conversion of \<open>p\<close>
  under the same \<open>w\<close> yields \<open>q\<close>, \<^verbatim>\<open>s.contains(p, w)\<close> is \<^verbatim>\<open>r.contains(q)\<close>; an
  error of \<^verbatim>\<open>to_pixel\<close> or of the conversion is passed on. The method keeps no state:
  the pixel region is the one \<^verbatim>\<open>to_pixel\<close> returns in this call.
\<close>

theorem sky_contains_delegates:
  "(to_pixel s w = Inr r \<and> from_sky p w = Inr q \<longrightarrow>
      SkyRegion_contains to_pixel from_sky contains s p w = contains r q) \<and>
   (to_pixel s w = Inl e \<longrightarrow> SkyRegion_contains to_pixel from_sky contains s p w = Inl e) \<and>
   (to_pixel s w = Inr r \<and> from_sky p w = Inl e \<longrightarrow>
      SkyRegion_contains to_pixel from_sky contains s p w = Inl e)"
  by (simp add: SkyRegion_contains_def)

theorem sky_contains_delegates_witness:
  "halfplane_to_pixel (SkyShape 0) () = Inr (PixelShape 0) \<and>
   identity_from_sky (SkyCoord True 0 [(-1, 4)]) () = Inr (PixCoord True 0 [(-1, 4)]) \<and>
   SkyRegion_contains halfplane_to_pixel identity_from_sky halfplane_contains
     (SkyShape 0) (SkyCoord True 0 [(-1, 4)]) () =
   halfplane_contains (PixelShape 0) (PixCoord True 0 [(-1, 4)])"
  using sky_contains_delegates [of halfplane_to_pixel "SkyShape 0" "()" "PixelShape 0"
      identity_from_sky "SkyCoord True 0 [(-1, 4)]" "PixCoord True 0 [(-1, 4)]" halfplane_contains]
  by (simp add: halfplane_to_pixel_def identity_from_sky_def)

subsection \<open>Constrained attributes\<close>

lemma RegionAttr_set_rejects:
  "\<not> accepts (attr_class a) v \<Longrightarrow>
     RegionAttr_set a i v =
       Raised (ValueError (The_must_be (attr_name a) (must_be (attr_class a)))) a"
  by (simp add: RegionAttr_set_def validate_def)

lemma RegionAttr_set_stores:
  "accepts (attr_class a) v \<Longrightarrow>
     RegionAttr_set a i v = Returned (a\<lparr>attr_values := (attr_values a)(i \<mapsto> v)\<rparr>)"
  by (simp add: RegionAttr_set_def validate_def)

lemma state_of_RegionAttr_set:
  "state_of (RegionAttr_set a j v) =
     (if accepts (attr_class a) v then a\<lparr>attr_values := (attr_values a)(j \<mapsto> v)\<rparr> else a)"
  by (simp add: RegionAttr_set_rejects RegionAttr_set_stores)

lemma attr_class_state_of_set:
  "attr_class (state_of (RegionAttr_set a j v)) = attr_class a"
  by (simp add: state_of_RegionAttr_set)

lemma RegionAttr_get_state_of_set:
  "RegionAttr_get (state_of (RegionAttr_set a j v)) i =
     (if j = i \<and> accepts (attr_class a) v then v else RegionAttr_get a i)"
  by (simp add: state_of_RegionAttr_set RegionAttr_get_def)

lemma RegionAttr_get_assign_all:
  "RegionAttr_get (assign_all a ops) i =
     (case filter (\<lambda>(j, v). j = i \<and> accepts (attr_class a) v) ops of
        [] \<Rightarrow> RegionAttr_get a i
      | x # xs \<Rightarrow> snd (last (x # xs)))"
proof (induction ops arbitrary: a)
  case Nil
  show ?case by simp
next
  case (Cons op ops)
  obtain j v where op: "op = (j, v)"
    by (cases op)
  show ?case
    unfolding op assign_all.simps Cons.IH attr_class_state_of_set RegionAttr_get_state_of_set
    by (auto split: list.splits)
qed

lemma RegionAttr_get_init: "RegionAttr_get (RegionAttr_init c name) i = NoneV"
  by (simp add: RegionAttr_init_def RegionAttr_get_def)

lemma attr_class_init: "attr_class (RegionAttr_init c name) = c"
  by (simp add: RegionAttr_init_def)

lemma attr_name_init: "attr_name (RegionAttr_init c name) = name"
  by (simp add: RegionAttr_init_def)

text \<open>
  C6. For a constrained attribute of any variant: assigning a value that fails the
  variant's predicate raises the \<^verbatim>\<open>ValueError\<close> that names the field and the expected
  shape, and the descriptor is left as it was; assigning a value that passes stores it
  for that instance and for no other; and after any sequence of assignments on a fresh
  descriptor, reading an instance returns the value of its last assignment that passed,
  or \<^verbatim>\<open>None\<close> when there was none.
\<close>

theorem constrained_attribute_contract:
  "(\<not> accepts (attr_class a) v \<longrightarrow>
      RegionAttr_set a i v =
        Raised (ValueError (The_must_be (attr_name a) (must_be (attr_class a)))) a) \<and>
   (accepts (attr_class a) v \<longrightarrow>
      (\<exists>a'. RegionAttr_set a i v = Returned a' \<and> RegionAttr_get a' i = v \<and>
         (\<forall>j. j \<noteq> i \<longrightarrow> RegionAttr_get a' j = RegionAttr_get a j))) \<and>
   RegionAttr_get (assign_all (RegionAttr_init c name) ops) i =
     (case filter (\<lambda>(j, v). j = i \<and> accepts c v) ops of
        [] \<Rightarrow> NoneV
      | x # xs \<Rightarrow> snd (last (x # xs)))"
proof (intro conjI impI)
  show "RegionAttr_set a i v =
      Raised (ValueError (The_must_be (attr_name a) (must_be (attr_class a)))) a"
    if "\<not> accepts (attr_class a) v"
    using that by (rule RegionAttr_set_rejects)
  show "\<exists>a'. RegionAttr_set a i v = Returned a' \<and> RegionAttr_get a' i = v \<and>
      (\<forall>j. j \<noteq> i \<longrightarrow> RegionAttr_get a' j = RegionAttr_get a j)"
    if "accepts (attr_class a) v"
    using that by (simp add: RegionAttr_set_stores RegionAttr_get_def)
  show "RegionAttr_get (assign_all (RegionAttr_init c name) ops) i =
     (case filter (\<lambda>(j, v). j = i \<and> accepts c v) ops of
        [] \<Rightarrow> NoneV
      | x # xs \<Rightarrow> snd (last (x # xs)))"
    by (simp add: RegionAttr_get_assign_all RegionAttr_get_init attr_class_init
        split: list.splits)
qed

theorem constrained_attribute_contract_witness:
  "RegionAttr_set (RegionAttr_init ScalarPix ''center'') 7
     (PixCoordV (PixCoord False 1 [(1, 2), (3, 4)])) =
     Raised (ValueError (The_must_be ''center'' ''a 0D PixCoord object''))
       (RegionAttr_init ScalarPix ''center'') \<and>
   (\<exists>a'. RegionAttr_set (RegionAttr_init ScalarLength ''radius'') 7 (FloatV 3) = Returned a' \<and>
      RegionAttr_get a' 7 = FloatV 3) \<and>
   RegionAttr_get (assign_all (RegionAttr_init ScalarLength ''radius'')
      [(7, FloatV 3), (8, IntV 9), (7, NoneV), (7, IntV 4), (7, ArrayV 1 [1, 2])]) 7 = IntV 4 \<and>
   RegionAttr_get (assign_all (RegionAttr_init ScalarLength ''radius'') [(7, NoneV)]) 7 = NoneV"
  using constrained_attribute_contract [of "RegionAttr_init ScalarPix ''center''"
      "PixCoordV (PixCoord False 1 [(1, 2), (3, 4)])" 7 ScalarLength "''radius''"
      "[(7, FloatV 3), (8, IntV 9), (7, NoneV), (7, IntV 4), (7, ArrayV 1 [1, 2])]"]
    constrained_attribute_contract [of "RegionAttr_init ScalarLength ''radius''" "FloatV 3" 7
      ScalarLength "''radius''" "[(7, NoneV)]"]
  by (auto simp: attr_class_init attr_name_init)

subsection \<open>Metadata containers\<close>

lemma resolve_meta_cases:
  "resolve RegionMeta_key_mapping key =
     (if key = ''text'' then ''label'' else if key = ''point'' then ''symbol'' else key)"
  by (simp add: resolve_def RegionMeta_key_mapping_def)

lemma resolve_visual_cases:
  "resolve RegionVisual_key_mapping key = (if key = ''width'' then ''linewidth'' else key)"
  by (simp add: resolve_def RegionVisual_key_mapping_def)

lemma meta_rejected_key_unaliased:
  "resolve RegionMeta_key_mapping key \<notin> set RegionMeta_valid_keys \<Longrightarrow>
     resolve RegionMeta_key_mapping key = key"
  by (simp add: resolve_meta_cases RegionMeta_valid_keys_def split: if_splits)

lemma visual_rejected_key_unaliased:
  "resolve RegionVisual_key_mapping key \<notin> set RegionVisual_valid_keys \<Longrightarrow>
     resolve RegionVisual_key_mapping key = key"
  by (simp add: resolve_visual_cases RegionVisual_valid_keys_def split: if_splits)

text \<open>
  C9, as stated, fails: not every write goes through the alias table and the vocabulary,
  and not every read resolves aliases. \<^verbatim>\<open>meta.update({"point": 1, "nonsense": 2})\<close>
  returns and stores both keys as given, the alias unresolved and the key outside the
  vocabulary without a \<^verbatim>\<open>KeyError\<close>, where \<^verbatim>\<open>meta["point"] = 1\<close> stores under
  \<^verbatim>\<open>"symbol"\<close> and \<^verbatim>\<open>meta["nonsense"] = 2\<close> raises; and after
  \<^verbatim>\<open>meta["symbol"] = 1\<close>, \<^verbatim>\<open>meta.get("point")\<close> is \<^verbatim>\<open>None\<close> where
  \<^verbatim>\<open>meta["point"]\<close> is 1. The same holds for \<^verbatim>\<open>visual\<close> with \<^verbatim>\<open>"width"\<close>.
\<close>

theorem metadata_update_bypasses_vocabulary:
  "RegionMeta_update Map.empty [''point'' \<mapsto> (1::nat), ''nonsense'' \<mapsto> 2] =
     Returned [''point'' \<mapsto> 1, ''nonsense'' \<mapsto> 2] \<and>
   ''nonsense'' \<notin> set RegionMeta_valid_keys \<and>
   RegionMeta_setitem Map.empty ''point'' (1::nat) = Returned [''symbol'' \<mapsto> 1] \<and>
   RegionMeta_setitem Map.empty ''nonsense'' (2::nat) =
     Raised (KeyError (Not_a_valid_meta_key ''nonsense'')) Map.empty \<and>
   RegionMeta_get [''symbol'' \<mapsto> (1::nat)] ''point'' = None \<and>
   RegionMeta_getitem [''symbol'' \<mapsto> (1::nat)] ''point'' = Inr 1 \<and>
   RegionVisual_update Map.empty [''width'' \<mapsto> (3::nat)] = Returned [''width'' \<mapsto> 3] \<and>
   RegionVisual_setitem Map.empty ''width'' (3::nat) = Returned [''linewidth'' \<mapsto> 3]"
  by (simp add: RegionMeta_update_def RegionVisual_update_def dict_update_def
      RegionMeta_get_def dict_get_def RegionMeta_setitem_def RegionVisual_setitem_def
      RegionMeta_getitem_def dict_getitem_def resolve_meta_cases resolve_visual_cases
      RegionMeta_valid_keys_def RegionVisual_valid_keys_def)

text \<open>
  C9, amended. An item assignment \<^verbatim>\<open>meta[key] = v\<close> or \<^verbatim>\<open>visual[key] = v\<close>
  resolves the key through the alias table and then tests it against the vocabulary:
  assigning to \<^verbatim>\<open>"point"\<close> is assigning to \<^verbatim>\<open>"symbol"\<close> and assigning to
  \<^verbatim>\<open>"width"\<close> is assigning to \<^verbatim>\<open>"linewidth"\<close>; a key that is in the vocabulary
  after aliasing is stored under its resolved name; any other key raises the
  \<^verbatim>\<open>KeyError\<close> that names the key as it was given, and the container is left as it
  was. An item read \<^verbatim>\<open>meta[key]\<close> or \<^verbatim>\<open>visual[key]\<close> looks the resolved key up.
  The methods inherited from \<^verbatim>\<open>dict\<close> are not covered.
\<close>

theorem metadata_keys_aliased_then_checked:
  "RegionMeta_setitem m ''point'' v = RegionMeta_setitem m ''symbol'' v \<and>
   RegionVisual_setitem m ''width'' v = RegionVisual_setitem m ''linewidth'' v \<and>
   (resolve RegionMeta_key_mapping key \<in> set RegionMeta_valid_keys \<longrightarrow>
      RegionMeta_setitem m key v = Returned (m(resolve RegionMeta_key_mapping key \<mapsto> v))) \<and>
   (resolve RegionMeta_key_mapping key \<notin> set RegionMeta_valid_keys \<longrightarrow>
      RegionMeta_setitem m key v = Raised (KeyError (Not_a_valid_meta_key key)) m) \<and>
   (resolve RegionVisual_key_mapping key \<in> set RegionVisual_valid_keys \<longrightarrow>
      RegionVisual_setitem m key v = Returned (m(resolve RegionVisual_key_mapping key \<mapsto> v))) \<and>
   (resolve RegionVisual_key_mapping key \<notin> set RegionVisual_valid_keys \<longrightarrow>
      RegionVisual_setitem m key v = Raised (KeyError (Not_a_valid_visual_meta_key key)) m) \<and>
   RegionMeta_getitem m key = dict_getitem m (resolve RegionMeta_key_mapping key) \<and>
   RegionVisual_getitem m key = dict_getitem m (resolve RegionVisual_key_mapping key)"
proof (intro conjI impI)
  show "RegionMeta_setitem m ''point'' v = RegionMeta_setitem m ''symbol'' v"
    by (simp add: RegionMeta_setitem_def resolve_meta_cases)
  show "RegionVisual_setitem m ''width'' v = RegionVisual_setitem m ''linewidth'' v"
    by (simp add: RegionVisual_setitem_def resolve_visual_cases)
  show "RegionMeta_setitem m key v = Returned (m(resolve RegionMeta_key_mapping key \<mapsto> v))"
    if "resolve RegionMeta_key_mapping key \<in> set RegionMeta_valid_keys"
    using that by (simp add: RegionMeta_setitem_def)
  show "RegionMeta_setitem m key v = Raised (KeyError (Not_a_valid_meta_key key)) m"
    if "resolve RegionMeta_key_mapping key \<notin> set RegionMeta_valid_keys"
    using that meta_rejected_key_unaliased [OF that] by (simp add: RegionMeta_setitem_def)
  show "RegionVisual_setitem m key v =
      Returned (m(resolve RegionVisual_key_mapping key \<mapsto> v))"
    if "resolve RegionVisual_key_mapping key \<in> set RegionVisual_valid_keys"
    using that by (simp add: RegionVisual_setitem_def)
  show "RegionVisual_setitem m key v = Raised (KeyError (Not_a_valid_visual_meta_key key)) m"
    if "resolve RegionVisual_key_mapping key \<notin> set RegionVisual_valid_keys"
    using that visual_rejected_key_unaliased [OF that] by (simp add: RegionVisual_setitem_def)
  show "RegionMeta_getitem m key = dict_getitem m (resolve RegionMeta_key_mapping key)"
    by (simp add: RegionMeta_getitem_def)
  show "RegionVisual_getitem m key = dict_getitem m (resolve RegionVisual_key_mapping key)"
    by (simp add: RegionVisual_getitem_def)
qed

theorem metadata_keys_aliased_then_checked_witness:
  "RegionMeta_setitem Map.empty ''point'' (1::nat) = Returned [''symbol'' \<mapsto> 1] \<and>
   RegionMeta_setitem [''symbol'' \<mapsto> (1::nat)] ''nonsense'' 2 =
     Raised (KeyError (Not_a_valid_meta_key ''nonsense'')) [''symbol'' \<mapsto> 1] \<and>
   RegionVisual_setitem Map.empty ''width'' (3::nat) = Returned [''linewidth'' \<mapsto> 3] \<and>
   RegionVisual_setitem Map.empty ''point'' (3::nat) =
     Raised (KeyError (Not_a_valid_visual_meta_key ''point'')) Map.empty \<and>
   RegionMeta_getitem [''symbol'' \<mapsto> (1::nat)] ''point'' = Inr 1"
  using metadata_keys_aliased_then_checked [of Map.empty "1::nat" "''symbol''"]
    metadata_keys_aliased_then_checked [of "[''symbol'' \<mapsto> (1::nat)]" 2 "''nonsense''"]
    metadata_keys_aliased_then_checked [of Map.empty "3::nat" "''width''"]
    metadata_keys_aliased_then_checked [of Map.empty "3::nat" "''point''"]
    metadata_keys_aliased_then_checked [of "[''symbol'' \<mapsto> (1::nat)]" 1 "''point''"]
  by (simp add: resolve_meta_cases resolve_visual_cases RegionMeta_valid_keys_def
      RegionVisual_valid_keys_def dict_getitem_def)

subsection \<open>Linked annulus attributes\<close>

lemma setattr_stores:
  "accepts (attr_class (s name)) v \<Longrightarrow>
     setattr s obj name v =
       Returned (s(name := (s name)\<lparr>attr_values := (attr_values (s name))(obj \<mapsto> v)\<rparr>))"
  by (simp add: setattr_def RegionAttr_set_stores)

lemma setattr_rejects:
  "\<not> accepts (attr_class (s name)) v \<Longrightarrow>
     setattr s obj name v =
       Raised (ValueError (The_must_be (attr_name (s name)) (must_be (attr_class (s name))))) s"
  by (simp add: setattr_def RegionAttr_set_rejects)

lemma setattr_raised_unchanged: "setattr s obj name v = Raised e s' \<Longrightarrow> s' = s"
  by (cases "accepts (attr_class (s name)) v") (simp_all add: setattr_stores setattr_rejects)

lemma getattr_stored:
  "getattr (s(name := (s name)\<lparr>attr_values := (attr_values (s name))(obj \<mapsto> v)\<rparr>)) obj' name' =
     (if name' = name \<and> obj' = obj then v else getattr s obj' name')"
  by (simp add: getattr_def RegionAttr_get_def)








lemma np_isscalar_num_of: "np_isscalar v \<longleftrightarrow> (\<exists>x. num_of v = Some x)"
  by (cases v) simp_all

lemma annulus_3_5_eq:
  "annulus_3_5 =
     shape_class(''radius'' := (shape_class ''radius'')
       \<lparr>attr_values := (attr_values (shape_class ''radius''))(10 \<mapsto> FloatV 3, 20 \<mapsto> FloatV 5)\<rparr>)"
proof -
  have "attr_class (shape_class ''radius'') = ScalarLength"
    by (simp add: shape_class_def attr_class_init)
  then show ?thesis
    by (simp add: annulus_3_5_def setattr_stores)
qed

lemma annulus_3_5_radius:
  "getattr annulus_3_5 10 ''radius'' = FloatV 3"
  "getattr annulus_3_5 20 ''radius'' = FloatV 5"
  "attr_class (annulus_3_5 ''radius'') = ScalarLength"
  by (simp_all add: annulus_3_5_eq getattr_def RegionAttr_get_def shape_class_def attr_class_init)

text \<open>
  The inner length setter on operands whose length is a number: a scalar above the outer
  length raises the order error; a scalar at or below the outer length is stored in
  region1 alone; a non-scalar raises the scalar error; a raise leaves the store as it
  was.
\<close>

theorem annulus_inner_length_order:
  "(np_isscalar v \<and> num_of (getattr s (region2 c) name) = Some outer \<and> num_of v = Some x \<and>
      outer < x \<longrightarrow>
      AnnulusInnerScalarLength_set name s c v =
        Raised (ValueError (The_inner_must_be_less_than_the_outer name)) s) \<and>
   (np_isscalar v \<and> num_of (getattr s (region2 c) name) = Some outer \<and> num_of v = Some x \<and>
      x \<le> outer \<and> attr_class (s name) = ScalarLength \<longrightarrow>
      AnnulusInnerScalarLength_set name s c v =
        Returned (s(name := (s name)\<lparr>attr_values := (attr_values (s name))(region1 c \<mapsto> v)\<rparr>))) \<and>
   (\<not> np_isscalar v \<longrightarrow>
      AnnulusInnerScalarLength_set name s c v =
        Raised (ValueError (The_inner_must_be name ''a scalar numpy/python number'')) s) \<and>
   (\<forall>e s'. AnnulusInnerScalarLength_set name s c v = Raised e s' \<longrightarrow> s' = s)"
proof (intro conjI impI allI)
  show "s' = s" if "AnnulusInnerScalarLength_set name s c v = Raised e s'" for e s'
    using that
    by (auto simp: AnnulusInnerScalarLength_set_def split: if_splits sum.splits bool.splits
        dest: setattr_raised_unchanged)
qed (auto simp: AnnulusInnerScalarLength_set_def py_lt_def setattr_stores)

text \<open>
  The outer length setter likewise: a scalar below the inner length raises the order
  error; a scalar at or above the inner length is stored in region2 alone; a non-scalar
  raises the scalar error; a raise leaves the store as it was.
\<close>

theorem annulus_outer_length_order:
  "(np_isscalar v \<and> num_of (getattr s (region1 c) name) = Some inner \<and> num_of v = Some x \<and>
      x < inner \<longrightarrow>
      AnnulusOuterScalarLength_set name s c v =
        Raised (ValueError (The_outer_must_be_greater_than_the_outer name)) s) \<and>
   (np_isscalar v \<and> num_of (getattr s (region1 c) name) = Some inner \<and> num_of v = Some x \<and>
      inner \<le> x \<and> attr_class (s name) = ScalarLength \<longrightarrow>
      AnnulusOuterScalarLength_set name s c v =
        Returned (s(name := (s name)\<lparr>attr_values := (attr_values (s name))(region2 c \<mapsto> v)\<rparr>))) \<and>
   (\<not> np_isscalar v \<longrightarrow>
      AnnulusOuterScalarLength_set name s c v =
        Raised (ValueError (The_outer_must_be name ''a scalar numpy/python number'')) s) \<and>
   (\<forall>e s'. AnnulusOuterScalarLength_set name s c v = Raised e s' \<longrightarrow> s' = s)"
proof (intro conjI impI allI)
  show "s' = s" if "AnnulusOuterScalarLength_set name s c v = Raised e s'" for e s'
    using that
    by (auto simp: AnnulusOuterScalarLength_set_def split: if_splits sum.splits bool.splits
        dest: setattr_raised_unchanged)
qed (auto simp: AnnulusOuterScalarLength_set_def py_gt_def setattr_stores)

theorem annulus_inner_length_order_witness:
  "AnnulusInnerScalarLength_set ''radius'' annulus_3_5 the_annulus (FloatV 6) =
     Raised (ValueError (The_inner_must_be_less_than_the_outer ''radius'')) annulus_3_5 \<and>
   AnnulusInnerScalarLength_set ''radius'' annulus_3_5 the_annulus (FloatV 4) =
     Returned (annulus_3_5(''radius'' := (annulus_3_5 ''radius'')
       \<lparr>attr_values := (attr_values (annulus_3_5 ''radius''))(10 \<mapsto> FloatV 4)\<rparr>)) \<and>
   AnnulusInnerScalarLength_set ''radius'' annulus_3_5 the_annulus (ArrayV 1 [1, 2]) =
     Raised (ValueError (The_inner_must_be ''radius'' ''a scalar numpy/python number'')) annulus_3_5"
  using annulus_inner_length_order [of "FloatV 6" annulus_3_5 the_annulus "''radius''" 5 6]
    annulus_inner_length_order [of "FloatV 4" annulus_3_5 the_annulus "''radius''" 5 4]
    annulus_inner_length_order [of "ArrayV 1 [1, 2]" annulus_3_5 the_annulus "''radius''"]
  by (simp add: annulus_3_5_radius the_annulus_def)

theorem annulus_outer_length_order_witness:
  "AnnulusOuterScalarLength_set ''radius'' annulus_3_5 the_annulus (FloatV 2) =
     Raised (ValueError (The_outer_must_be_greater_than_the_outer ''radius'')) annulus_3_5 \<and>
   AnnulusOuterScalarLength_set ''radius'' annulus_3_5 the_annulus (FloatV 5) =
     Returned (annulus_3_5(''radius'' := (annulus_3_5 ''radius'')
       \<lparr>attr_values := (attr_values (annulus_3_5 ''radius''))(20 \<mapsto> FloatV 5)\<rparr>))"
  using annulus_outer_length_order [of "FloatV 2" annulus_3_5 the_annulus "''radius''" 3 2]
    annulus_outer_length_order [of "FloatV 5" annulus_3_5 the_annulus "''radius''" 3 5]
  by (simp add: annulus_3_5_radius the_annulus_def)

text \<open>
  C1 at the boundary. On the annulus with inner radius 3.0 and outer radius 5.0, setting
  the inner radius to 5.0 returns and the inner radius is then 5.0, and setting the outer
  radius to 3.0 returns and the outer radius is then 3.0: the setters compare with
  \<^verbatim>\<open><\<close> and \<^verbatim>\<open>>\<close> and so let equal lengths through, although their messages
  say \<^verbatim>\<open>must be less than\<close> and \<^verbatim>\<open>must be greater than\<close>.
\<close>

theorem annulus_equal_lengths_accepted:
  "AnnulusInnerScalarLength_get ''radius'' annulus_3_5 the_annulus = FloatV 3 \<and>
   AnnulusOuterScalarLength_get ''radius'' annulus_3_5 the_annulus = FloatV 5 \<and>
   (\<exists>s'. AnnulusInnerScalarLength_set ''radius'' annulus_3_5 the_annulus (FloatV 5) = Returned s' \<and>
      AnnulusInnerScalarLength_get ''radius'' s' the_annulus = FloatV 5 \<and>
      AnnulusOuterScalarLength_get ''radius'' s' the_annulus = FloatV 5) \<and>
   (\<exists>s'. AnnulusOuterScalarLength_set ''radius'' annulus_3_5 the_annulus (FloatV 3) = Returned s' \<and>
      AnnulusInnerScalarLength_get ''radius'' s' the_annulus = FloatV 3 \<and>
      AnnulusOuterScalarLength_get ''radius'' s' the_annulus = FloatV 3)"
  by (simp add: AnnulusInnerScalarLength_get_def AnnulusOuterScalarLength_get_def
      AnnulusInnerScalarLength_set_def AnnulusOuterScalarLength_set_def the_annulus_def
      annulus_3_5_radius py_lt_def py_gt_def setattr_stores getattr_stored)

end
